theory Spec2Isabelle
  imports Main "HOL-Library.AList" "HOL-Library.Sublist"
begin

section \<open>Paths, errors and the filesystem below the script's directory\<close>

text \<open>
  Every path of \<^verbatim>\<open>setup-ffmpeg.js\<close> lies below \<^verbatim>\<open>__dirname\<close>, the directory that
  holds the script. A path is the list of its components below that directory, so
  \<^verbatim>\<open>path.join(dir, item)\<close> is \<open>dir @ [item]\<close> and \<^verbatim>\<open>path.dirname\<close> is \<open>butlast\<close>.
  The filesystem is the tree below \<^verbatim>\<open>__dirname\<close>: a regular file with its bytes, or a
  directory with its entries in the order \<^verbatim>\<open>fs.readdirSync\<close> lists them. Names are
  compared as JavaScript's \<^verbatim>\<open>===\<close> compares them (case-sensitive). Symbolic links
  are not part of the model.
\<close>

type_synonym path = "string list"

datatype fsnode = File string | Dir "(string \<times> fsnode) list"

text \<open>A JavaScript \<^verbatim>\<open>Error\<close> with its message.\<close>

datatype error = Error (message: string)

fun fs_lookup :: "fsnode \<Rightarrow> path \<Rightarrow> fsnode option" where
  "fs_lookup n [] = Some n"
| "fs_lookup (File c) (x # p) = None"
| "fs_lookup (Dir es) (x # p) = (case map_of es x of None \<Rightarrow> None | Some n \<Rightarrow> fs_lookup n p)"

text \<open>\<^verbatim>\<open>fs.existsSync\<close>: true for a file and for a directory, never throws.\<close>

definition existsSync :: "fsnode \<Rightarrow> path \<Rightarrow> bool" where
  "existsSync root p = (fs_lookup root p \<noteq> None)"

text \<open>Stores a node at a path, creating the directories on the way when they are missing.\<close>

fun fs_put :: "fsnode \<Rightarrow> path \<Rightarrow> fsnode \<Rightarrow> fsnode" where
  "fs_put n [] new = new"
| "fs_put (File c) (x # p) new = File c"
| "fs_put (Dir es) (x # p) new =
     Dir (AList.update x (fs_put (case map_of es x of None \<Rightarrow> Dir [] | Some n \<Rightarrow> n) p new) es)"

fun fs_remove :: "fsnode \<Rightarrow> path \<Rightarrow> fsnode" where
  "fs_remove n [] = n"
| "fs_remove (File c) (x # p) = File c"
| "fs_remove (Dir es) [x] = Dir (AList.delete x es)"
| "fs_remove (Dir es) (x # y # p) =
     (case map_of es x of None \<Rightarrow> Dir es
      | Some n \<Rightarrow> Dir (AList.update x (fs_remove n (y # p)) es))"

text \<open>
  \<^verbatim>\<open>fs.mkdirSync(p, { recursive: true })\<close>: creates the missing directories of the path;
  it throws when a component of the path is a regular file.
\<close>

fun mkdirSync :: "fsnode \<Rightarrow> path \<Rightarrow> error + fsnode" where
  "mkdirSync (File c) p = Inl (Error ''ENOTDIR: not a directory, mkdir'')"
| "mkdirSync (Dir es) [] = Inr (Dir es)"
| "mkdirSync (Dir es) (x # p) =
     (case mkdirSync (case map_of es x of None \<Rightarrow> Dir [] | Some n \<Rightarrow> n) p of
        Inl e \<Rightarrow> Inl e
      | Inr n' \<Rightarrow> Inr (Dir (AList.update x n' es)))"

section \<open>The executable search (findFfmpegExePath, lines 95 to 119)\<close>

text \<open>
  The function takes the directory's path and the node the filesystem holds there:
  \<^verbatim>\<open>fs.readdirSync(dir)\<close> is the list of the node's entries (it throws on a regular
  file), \<^verbatim>\<open>fs.statSync(itemPath).isDirectory()\<close> is the kind of the entry's node, and
  \<^verbatim>\<open>fs.existsSync(path.join(itemPath, 'ffmpeg.exe'))\<close> looks the name up in the entry's
  node. \<open>find_loop\<close> is the \<^verbatim>\<open>for (const item of items)\<close> loop. The result is
  \<open>Inr None\<close> for \<^verbatim>\<open>null\<close> and \<open>Inl\<close> for a thrown error.
\<close>

function findFfmpegExePath :: "fsnode \<Rightarrow> path \<Rightarrow> error + path option"
  and find_loop :: "(string \<times> fsnode) list \<Rightarrow> path \<Rightarrow> error + path option"
where
  "findFfmpegExePath (File c) dir = Inl (Error ''ENOTDIR: not a directory, scandir'')"
| "findFfmpegExePath (Dir items) dir = find_loop items dir"
| "find_loop [] dir = Inr None"
| "find_loop ((item, Dir sub) # rest) dir =
     (if item = ''bin'' \<and> existsSync (Dir sub) [''ffmpeg.exe'']
      then Inr (Some (dir @ [item] @ [''ffmpeg.exe'']))
      else (case findFfmpegExePath (Dir sub) (dir @ [item]) of
              Inl e \<Rightarrow> Inl e
            | Inr (Some exePath) \<Rightarrow> Inr (Some exePath)
            | Inr None \<Rightarrow> find_loop rest dir))"
| "find_loop ((item, File c) # rest) dir =
     (if item = ''ffmpeg.exe'' then Inr (Some (dir @ [item])) else find_loop rest dir)"
  by pat_completeness auto
termination
  by (relation "measure (\<lambda>a. case a of
        Inl (n, dir) \<Rightarrow> size n
      | Inr (its, dir) \<Rightarrow> size_list (size_prod (\<lambda>s. 0) size) its)") auto



section \<open>The environment of a run and the state the script changes\<close>

datatype channel = Stdout | Stderr

text \<open>The five stages of the run, and the guidance output, as the orchestrator enters them.\<close>

datatype stage =
  CheckSystemPath | CheckLocalCache | AwaitConfirmation | Download | ExtractSearch | Guidance

text \<open>
  What \<^verbatim>\<open>exec('ffmpeg -version', callback)\<close> does: the child exits with a code, is killed
  by a signal, or cannot be spawned and \<^verbatim>\<open>exec\<close> reports it to the callback; or \<^verbatim>\<open>exec\<close>
  itself throws while spawning and never calls back.
\<close>

datatype exec_outcome = Exited nat | Killed | SpawnFailed | Threw error

text \<open>What \<^verbatim>\<open>https.get\<close> delivers: an \<^verbatim>\<open>'error'\<close> event, or a response with its status
  code and body.\<close>

datatype http_outcome = ConnError error | Response nat string

datatype 'a promise = Pending | Rejected error | Resolved 'a

text \<open>
  What the world answers in one run: the script's directory as text, the outcome of the
  probe process, the HTTP exchange, the \<^verbatim>\<open>decompress\<close> package (from the archive's bytes
  and the node at the target directory to the node after extraction, or the error it
  rejects with and the node as the failed extraction left it), the error of the
  operating system when it refuses to delete the archive (a file another process holds
  open, for example), the error when it refuses to open the archive for writing, the
  write to the archive that fails, if one does (a full disk, for example: the number of
  bytes stored before it, and the error), and whether
  the asynchronous \<^verbatim>\<open>fs.unlink\<close> of the request's error handler runs before the pending
  open of the write stream has completed.
\<close>

record env =
  dirname :: string
  ffmpeg_version :: exec_outcome
  get_response :: http_outcome
  decompress :: "string \<Rightarrow> fsnode \<Rightarrow> (error \<times> fsnode) + fsnode"
  unlink_error :: "error option"
  open_error :: "error option"
  stream_error :: "(nat \<times> error) option"
  unlink_before_open :: bool

text \<open>
  The state: the filesystem below \<^verbatim>\<open>__dirname\<close>, the input events still to arrive on
  \<^verbatim>\<open>process.stdin\<close> (which is taken to stay open), the console output so far, the
  stages entered so far, and the exception no handler has caught, which ends the
  process.
\<close>

record world =
  files :: fsnode
  stdin :: "string list"
  console :: "(channel \<times> string) list"
  stages :: "stage list"
  uncaught :: "error option"

definition console_log :: "string \<Rightarrow> world \<Rightarrow> world" where
  "console_log s w = w\<lparr>console := console w @ [(Stdout, s)]\<rparr>"

definition console_error :: "string \<Rightarrow> world \<Rightarrow> world" where
  "console_error s w = w\<lparr>console := console w @ [(Stderr, s)]\<rparr>"

definition enter :: "stage \<Rightarrow> world \<Rightarrow> world" where
  "enter s w = w\<lparr>stages := stages w @ [s]\<rparr>"

definition downloadPath :: path where
  "downloadPath = [''ffmpeg-download.zip'']"

definition ffmpegDir :: path where
  "ffmpegDir = [''ffmpeg'']"

text \<open>A path as the script prints it: \<^verbatim>\<open>__dirname\<close>, then each component after a separator.\<close>

definition path_string :: "env \<Rightarrow> path \<Rightarrow> string" where
  "path_string env p = dirname env @ concat (map (\<lambda>c. CHR 0x5C # c) p)"

text \<open>A number in a template literal: its decimal digits.\<close>

definition digit :: "nat \<Rightarrow> char" where
  "digit n = ''0123456789'' ! (n mod 10)"

function show_nat :: "nat \<Rightarrow> string" where
  "show_nat n = (if n < 10 then [digit n] else show_nat (n div 10) @ [digit n])"
  by pat_completeness auto
termination
  by (relation "measure (\<lambda>n. n)") auto

text \<open>
  The open that \<^verbatim>\<open>fs.createWriteStream(p)\<close> starts: when it succeeds the file exists and
  is empty; it fails on a directory, below a missing directory and when the operating
  system refuses. A failed open, like a failed write, is an \<^verbatim>\<open>'error'\<close> event of the
  stream (\<open>Inl\<close>), for which the script has no listener. \<^verbatim>\<open>response.pipe(file)\<close> stores
  the body.
\<close>

definition createWriteStream :: "env \<Rightarrow> fsnode \<Rightarrow> path \<Rightarrow> error + fsnode" where
  "createWriteStream env root p =
     (case fs_lookup root p of
        Some (Dir es) \<Rightarrow> Inl (Error ''EISDIR: illegal operation on a directory, open'')
      | _ \<Rightarrow>
          (case fs_lookup root (butlast p) of
             Some (Dir es) \<Rightarrow>
               (case open_error env of Some e \<Rightarrow> Inl e | None \<Rightarrow> Inr (fs_put root p (File [])))
           | _ \<Rightarrow> Inl (Error ''ENOENT: no such file or directory, open'')))"

definition pipe :: "string \<Rightarrow> fsnode \<Rightarrow> path \<Rightarrow> fsnode" where
  "pipe body root p = fs_put root p (File body)"

text \<open>\<^verbatim>\<open>fs.unlinkSync\<close> throws when there is no file to delete, when the path is a
  directory, and when the operating system refuses.\<close>

definition unlinkSync :: "env \<Rightarrow> fsnode \<Rightarrow> path \<Rightarrow> error + fsnode" where
  "unlinkSync env root p =
     (case fs_lookup root p of
        None \<Rightarrow> Inl (Error ''ENOENT: no such file or directory, unlink'')
      | Some (Dir es) \<Rightarrow> Inl (Error ''EPERM: operation not permitted, unlink'')
      | Some (File c) \<Rightarrow>
          (case unlink_error env of Some e \<Rightarrow> Inl e | None \<Rightarrow> Inr (fs_remove root p)))"

text \<open>\<^verbatim>\<open>fs.unlink(p, () => {})\<close>: the callback ignores the error.\<close>

definition unlink :: "env \<Rightarrow> fsnode \<Rightarrow> path \<Rightarrow> fsnode" where
  "unlink env root p = (case unlinkSync env root p of Inl e \<Rightarrow> root | Inr root' \<Rightarrow> root')"

text \<open>
  \<^verbatim>\<open>decompress(src, dst, ...)\<close>: reads the archive and leaves the extracted tree at
  \<open>dst\<close>; it rejects when the archive cannot be read or extracted, and then \<open>dst\<close> holds
  what the extraction had written. \<open>Inl\<close> carries the error and the filesystem at
  that point.
\<close>

definition decompressInto ::
  "env \<Rightarrow> fsnode \<Rightarrow> path \<Rightarrow> path \<Rightarrow> (error \<times> fsnode) + fsnode" where
  "decompressInto env root src dst =
     (case fs_lookup root src of
        Some (File bytes) \<Rightarrow>
          (case decompress env bytes (case fs_lookup root dst of None \<Rightarrow> Dir [] | Some n \<Rightarrow> n) of
             Inl (e, n') \<Rightarrow> Inl (e, fs_put root dst n')
           | Inr n' \<Rightarrow> Inr (fs_put root dst n'))
      | _ \<Rightarrow> Inl (Error ''ENOENT: no such file or directory, open'', root))"

section \<open>The stages\<close>

text \<open>
  checkFfmpeg (lines 19 to 31). \<open>exec_error\<close>: the callback of \<^verbatim>\<open>exec\<close> is called with an
  error, which is so unless the child exited with code 0. When \<^verbatim>\<open>exec\<close> throws instead,
  the executor of the promise, which has no \<^verbatim>\<open>try\<close>, lets the exception through and
  the promise is rejected with it.
\<close>

definition exec_error :: "exec_outcome \<Rightarrow> bool" where
  "exec_error x =
     (case x of Exited code \<Rightarrow> code \<noteq> 0 | Killed \<Rightarrow> True | SpawnFailed \<Rightarrow> True | Threw e \<Rightarrow> False)"

definition checkFfmpeg :: "env \<Rightarrow> world \<Rightarrow> bool promise \<times> world" where
  "checkFfmpeg env w =
     (case ffmpeg_version env of
        Threw e \<Rightarrow> (Rejected e, w)
      | called_back \<Rightarrow>
          if exec_error called_back
          then (Resolved False, console_log ''FFmpeg is not found in your system PATH.'' w)
          else (Resolved True, console_log ''FFmpeg is already installed in your system!'' w))"

text \<open>
  downloadFfmpeg (lines 34 to 58). The open of the write stream is asynchronous. It is
  taken to complete before a response arrives. The \<^verbatim>\<open>'error'\<close> event of the request
  may come before it: then \<^verbatim>\<open>fs.unlink\<close> runs first (deleting an older archive, if any)
  and the open creates the file afterwards. An \<^verbatim>\<open>'error'\<close> event of the write stream
  has no listener: it is an uncaught exception, the promise stays pending and the
  process ends.
\<close>

definition downloadFfmpeg :: "env \<Rightarrow> world \<Rightarrow> unit promise \<times> world" where
  "downloadFfmpeg env w =
     (let w1 = console_log ''Downloading FFmpeg...'' w in
      case get_response env of
        ConnError err \<Rightarrow>
          (if unlink_before_open env
           then (let root1 = unlink env (files w1) downloadPath in
                 case createWriteStream env root1 downloadPath of
                   Inl e \<Rightarrow> (Pending, w1\<lparr>files := root1, uncaught := Some e\<rparr>)
                 | Inr root2 \<Rightarrow> (Rejected err, w1\<lparr>files := root2\<rparr>))
           else (case createWriteStream env (files w1) downloadPath of
                   Inl e \<Rightarrow> (Pending, w1\<lparr>uncaught := Some e\<rparr>)
                 | Inr root2 \<Rightarrow> (Rejected err, w1\<lparr>files := unlink env root2 downloadPath\<rparr>)))
      | Response statusCode body \<Rightarrow>
          (case createWriteStream env (files w1) downloadPath of
             Inl e \<Rightarrow> (Pending, w1\<lparr>uncaught := Some e\<rparr>)
           | Inr root2 \<Rightarrow>
               if statusCode \<noteq> 200
               then (Rejected (Error (''Failed to download FFmpeg: '' @ show_nat statusCode)),
                     w1\<lparr>files := root2\<rparr>)
               else (case stream_error env of
                       Some (stored, e) \<Rightarrow>
                         (Pending,
                          w1\<lparr>files := pipe (take stored body) root2 downloadPath,
                             uncaught := Some e\<rparr>)
                     | None \<Rightarrow>
                         (Resolved (),
                          console_log ''Download complete!''
                            (w1\<lparr>files := pipe body root2 downloadPath\<rparr>)))))"

text \<open>extractFfmpeg (lines 61 to 92). \<open>extractArchive\<close> is lines 66 to 73 (\<open>Inl\<close> carries the
  error and the filesystem at that point), \<open>extractFfmpeg_try\<close> the \<^verbatim>\<open>try\<close> block,
  \<open>extractFfmpeg\<close> the block with its \<^verbatim>\<open>catch\<close>, which logs and throws again.\<close>

definition extractArchive :: "env \<Rightarrow> fsnode \<Rightarrow> (error \<times> fsnode) + fsnode" where
  "extractArchive env root =
     (case (if \<not> existsSync root ffmpegDir then mkdirSync root ffmpegDir else Inr root) of
        Inl e \<Rightarrow> Inl (e, root)
      | Inr root1 \<Rightarrow> decompressInto env root1 downloadPath ffmpegDir)"

definition searchExtracted :: "fsnode \<Rightarrow> error + path option" where
  "searchExtracted root =
     (case fs_lookup root ffmpegDir of
        None \<Rightarrow> Inl (Error ''ENOENT: no such file or directory, scandir'')
      | Some n \<Rightarrow> findFfmpegExePath n ffmpegDir)"

definition extractFfmpeg_try :: "env \<Rightarrow> world \<Rightarrow> (error + path) \<times> world" where
  "extractFfmpeg_try env w =
     (case extractArchive env (files w) of
        Inl (e, root1) \<Rightarrow> (Inl e, w\<lparr>files := root1\<rparr>)
      | Inr root2 \<Rightarrow>
          (let w2 = console_log ''Extraction complete!'' (w\<lparr>files := root2\<rparr>) in
           case unlinkSync env (files w2) downloadPath of
             Inl e \<Rightarrow> (Inl e, w2)
           | Inr root3 \<Rightarrow>
               (let w3 = console_log ''Cleaned up temporary files.'' (w2\<lparr>files := root3\<rparr>) in
                case searchExtracted (files w3) of
                  Inl e \<Rightarrow> (Inl e, w3)
                | Inr (Some ffmpegExePath) \<Rightarrow> (Inr ffmpegExePath, w3)
                | Inr None \<Rightarrow>
                    (Inl (Error ''Could not find ffmpeg.exe in the extracted files''), w3))))"

definition extractFfmpeg :: "env \<Rightarrow> world \<Rightarrow> path promise \<times> world" where
  "extractFfmpeg env w =
     (case extractFfmpeg_try env (console_log ''Extracting FFmpeg...'' w) of
        (Inl err, w1) \<Rightarrow>
          (Rejected err, console_error (''Error extracting FFmpeg: '' @ message err) w1)
      | (Inr ffmpegExePath, w1) \<Rightarrow> (Resolved ffmpegExePath, w1))"

text \<open>addToPath (lines 122 to 132): prints the guidance, changes nothing else.\<close>

definition addToPath :: "env \<Rightarrow> path \<Rightarrow> world \<Rightarrow> path \<times> world" where
  "addToPath env ffmpegExePath w =
     (let ffmpegBinDir = butlast ffmpegExePath;
          w1 = console_log (CHR 0x0A # ''FFmpeg installed at: '' @ path_string env ffmpegExePath) w;
          w2 = console_log
                 (CHR 0x0A # ''To use FFmpeg system-wide, add this directory to your PATH:'') w1;
          w3 = console_log (path_string env ffmpegBinDir) w2;
          w4 = console_log
                 (CHR 0x0A # ''You can do this by running the following command in Command Prompt (as Administrator):'')
                 w3;
          w5 = console_log
                 (''setx PATH '' @ [CHR 0x22] @ ''%PATH%;'' @ path_string env ffmpegBinDir @ [CHR 0x22])
                 w4
      in (ffmpegBinDir, w5))"

text \<open>The local-cache check of main (lines 147 to 149): the path when something exists there.\<close>

definition localCache :: "fsnode \<Rightarrow> path option" where
  "localCache root =
     (if existsSync root (ffmpegDir @ [''bin'', ''ffmpeg.exe''])
      then Some (ffmpegDir @ [''bin'', ''ffmpeg.exe''])
      else None)"

text \<open>
  main (lines 135 to 174): \<open>main_try\<close> is the \<^verbatim>\<open>try\<close> block, \<open>main\<close> adds the \<^verbatim>\<open>catch\<close>.
  Waiting for \<^verbatim>\<open>process.stdin.once('data', ...)\<close> takes the next input event; when none
  ever arrives the promise stays pending.
\<close>

definition warning_line :: string where
  "warning_line = ''You can still use the YouTube Downloader, but video quality may be limited.''"

definition main_try :: "env \<Rightarrow> world \<Rightarrow> unit promise \<times> world" where
  "main_try env w =
     (case checkFfmpeg env (enter CheckSystemPath w) of
        (Pending, w1) \<Rightarrow> (Pending, w1)
      | (Rejected e, w1) \<Rightarrow> (Rejected e, w1)
      | (Resolved True, w1) \<Rightarrow>
          (Resolved (),
           console_log ''You can use the YouTube Downloader with full video quality features.''
             (console_log
                (CHR 0x0A # ''FFmpeg is already installed on your system. No need to download.'') w1))
      | (Resolved False, w1) \<Rightarrow>
          (let w2 = enter CheckLocalCache w1 in
           case localCache (files w2) of
             Some ffmpegExePath \<Rightarrow>
               (let w3 = console_log (CHR 0x0A # ''Local FFmpeg installation found.'') w2
                in (Resolved (), snd (addToPath env ffmpegExePath (enter Guidance w3))))
           | None \<Rightarrow>
               (let w3 = console_log ''Press Enter to continue or Ctrl+C to cancel...''
                           (console_log
                              (CHR 0x0A # ''Would you like to download and install FFmpeg for better video quality?'')
                              (enter AwaitConfirmation w2))
                in case stdin w3 of
                     [] \<Rightarrow> (Pending, w3)
                   | ev # later \<Rightarrow>
                       (case downloadFfmpeg env (enter Download (w3\<lparr>stdin := later\<rparr>)) of
                          (Pending, w4) \<Rightarrow> (Pending, w4)
                        | (Rejected e, w4) \<Rightarrow> (Rejected e, w4)
                        | (Resolved u, w4) \<Rightarrow>
                            (case extractFfmpeg env (enter ExtractSearch w4) of
                               (Pending, w5) \<Rightarrow> (Pending, w5)
                             | (Rejected e, w5) \<Rightarrow> (Rejected e, w5)
                             | (Resolved ffmpegExePath, w5) \<Rightarrow>
                                 (Resolved (),
                                  console_log
                                    (CHR 0x0A # ''Setup complete! You can now use the YouTube Downloader with full video quality features.'')
                                    (snd (addToPath env ffmpegExePath (enter Guidance w5)))))))))"

definition main :: "env \<Rightarrow> world \<Rightarrow> unit promise \<times> world" where
  "main env w =
     (case main_try env w of
        (Rejected err, w1) \<Rightarrow>
          (Resolved (),
           console_log warning_line
             (console_error (CHR 0x0A # ''Error setting up FFmpeg: '' @ message err) w1))
      | (r, w1) \<Rightarrow> (r, w1))"

text \<open>
  The script as a whole (lines 14 to 16 and 177 to 182): the banner, \<open>main\<close>, a rejection
  printed by \<^verbatim>\<open>.catch(console.error)\<close>, and in \<^verbatim>\<open>.finally\<close> the exit prompt and
  \<^verbatim>\<open>process.exit(0)\<close> at the next input event. An uncaught exception ends the process
  with exit code 1 after its message is printed. The result is the exit code, or \<open>None\<close>
  while the process waits for input.
\<close>

definition exit_prompt :: string where
  "exit_prompt = CHR 0x0A # ''Press any key to exit...''"

definition banner :: "world \<Rightarrow> world" where
  "banner w =
     console_log (''This script will download and set up FFmpeg for better video quality.'' @ [CHR 0x0A])
       (console_log ''==============================''
          (console_log ''YouTube Downloader FFmpeg Setup'' w))"

definition run :: "env \<Rightarrow> world \<Rightarrow> nat option \<times> world" where
  "run env w =
     (case main env (banner w) of
        (Pending, w1) \<Rightarrow>
          (case uncaught w1 of
             None \<Rightarrow> (None, w1)
           | Some e \<Rightarrow> (Some 1, console_error (message e) w1))
      | (settled, w1) \<Rightarrow>
          (let w2 = (case settled of Rejected e \<Rightarrow> console_error (message e) w1 | _ \<Rightarrow> w1);
               w3 = console_log exit_prompt w2
           in case stdin w3 of
                [] \<Rightarrow> (None, w3)
              | ev # later \<Rightarrow> (Some 0, w3\<lparr>stdin := later\<rparr>)))"

section \<open>Notions the properties are stated with\<close>



text \<open>The regular files named \<^verbatim>\<open>ffmpeg.exe\<close> of a tree, in listing order.\<close>

function exe_files :: "fsnode \<Rightarrow> path \<Rightarrow> path list"
  and exe_files_in :: "(string \<times> fsnode) list \<Rightarrow> path \<Rightarrow> path list"
where
  "exe_files (File c) dir = []"
| "exe_files (Dir items) dir = exe_files_in items dir"
| "exe_files_in [] dir = []"
| "exe_files_in ((item, File c) # rest) dir =
     (if item = ''ffmpeg.exe'' then [dir @ [item]] else []) @ exe_files_in rest dir"
| "exe_files_in ((item, Dir sub) # rest) dir =
     exe_files (Dir sub) (dir @ [item]) @ exe_files_in rest dir"
  by pat_completeness auto
termination
  by (relation "measure (\<lambda>a. case a of
        Inl (n, dir) \<Rightarrow> size n
      | Inr (its, dir) \<Rightarrow> size_list (size_prod (\<lambda>s. 0) size) its)") auto

text \<open>The directories named \<^verbatim>\<open>ffmpeg.exe\<close> of a tree, in listing order.\<close>

function exe_dirs :: "fsnode \<Rightarrow> path \<Rightarrow> path list"
  and exe_dirs_in :: "(string \<times> fsnode) list \<Rightarrow> path \<Rightarrow> path list"
where
  "exe_dirs (File c) dir = []"
| "exe_dirs (Dir items) dir = exe_dirs_in items dir"
| "exe_dirs_in [] dir = []"
| "exe_dirs_in ((item, File c) # rest) dir = exe_dirs_in rest dir"
| "exe_dirs_in ((item, Dir sub) # rest) dir =
     (if item = ''ffmpeg.exe'' then [dir @ [item]] else []) @
     exe_dirs (Dir sub) (dir @ [item]) @ exe_dirs_in rest dir"
  by pat_completeness auto
termination
  by (relation "measure (\<lambda>a. case a of
        Inl (n, dir) \<Rightarrow> size n
      | Inr (its, dir) \<Rightarrow> size_list (size_prod (\<lambda>s. 0) size) its)") auto


text \<open>The lines printed up to the confirmation prompt.\<close>

definition confirm_lines :: "(channel \<times> string) list" where
  "confirm_lines =
     [(Stdout, ''FFmpeg is not found in your system PATH.''),
      (Stdout, CHR 0x0A # ''Would you like to download and install FFmpeg for better video quality?''),
      (Stdout, ''Press Enter to continue or Ctrl+C to cancel...'')]"


text \<open>The state in which main calls downloadFfmpeg, when the input events left are \<open>later\<close>.\<close>

definition before_download :: "world \<Rightarrow> string list \<Rightarrow> world" where
  "before_download w later =
     enter Download
       ((console_log ''Press Enter to continue or Ctrl+C to cancel...''
          (console_log
             (CHR 0x0A # ''Would you like to download and install FFmpeg for better video quality?'')
             (enter AwaitConfirmation (enter CheckLocalCache
                (console_log ''FFmpeg is not found in your system PATH.''
                   (enter CheckSystemPath w))))))
        \<lparr>stdin := later\<rparr>)"

section \<open>Example runs\<close>

text \<open>
  A machine without FFmpeg on which the download answers 404; one where the download and
  the extraction succeed; one where the archive cannot be deleted afterwards; one whose
  archive holds no executable; one where \<^verbatim>\<open>exec\<close> throws \<^verbatim>\<open>spawn E2BIG\<close>; one whose disk
  is full. \<open>bin_dir_tree\<close> is an extracted tree whose \<^verbatim>\<open>bin\<close> holds a directory named
  \<^verbatim>\<open>ffmpeg.exe\<close>, \<open>cached_dir_root\<close> a script directory with such a directory at the place
  of the cached executable, and \<open>w_zipdir\<close> a state in which a directory has the
  archive's name.
\<close>

definition env404 :: env where
  "env404 = \<lparr>dirname = ''C:'' @ [CHR 0x5C] @ ''saveall'', ffmpeg_version = SpawnFailed,
     get_response = Response 404 ''Not Found'',
     decompress = (\<lambda>bytes n. Inr n), unlink_error = None,
     open_error = None, stream_error = None, unlink_before_open = False\<rparr>"

definition release_tree :: fsnode where
  "release_tree = Dir [(''ffmpeg-master-latest-win64-gpl'',
     Dir [(''LICENSE.txt'', File ''GPL''),
          (''doc'', Dir [(''ffmpeg.html'', File ''html'')]),
          (''bin'', Dir [(''ffmpeg.exe'', File ''MZ''), (''ffprobe.exe'', File ''MZ'')])])]"

definition docs_tree :: fsnode where
  "docs_tree = Dir [(''ffmpeg-master-latest-win64-gpl'',
     Dir [(''LICENSE.txt'', File ''GPL''),
          (''doc'', Dir [(''ffmpeg.html'', File ''html'')])]),
     (''presets'', Dir [])]"

definition env_ok :: env where
  "env_ok = env404\<lparr>get_response := Response 200 ''PK'', decompress := (\<lambda>bytes n. Inr release_tree)\<rparr>"

definition env_busy :: env where
  "env_busy = env_ok\<lparr>unlink_error := Some (Error ''EBUSY: resource busy or locked, unlink'')\<rparr>"

definition env_docs :: env where
  "env_docs = env_ok\<lparr>decompress := (\<lambda>bytes n. Inr docs_tree)\<rparr>"

definition w_fresh :: world where
  "w_fresh = \<lparr>files = Dir [(''setup-ffmpeg.js'', File ''js'')],
     stdin = [[CHR 0x0A], [CHR 0x0A]], console = [], stages = [], uncaught = None\<rparr>"

definition w_downloaded :: world where
  "w_downloaded = w_fresh\<lparr>files :=
     Dir [(''setup-ffmpeg.js'', File ''js''), (''ffmpeg-download.zip'', File ''PK'')]\<rparr>"

definition bin_dir_tree :: fsnode where
  "bin_dir_tree = Dir [(''bin'', Dir [(''ffmpeg.exe'', Dir [])])]"

definition env_e2big :: env where
  "env_e2big = env_ok\<lparr>ffmpeg_version := Threw (Error ''spawn E2BIG'')\<rparr>"

definition env_full_disk :: env where
  "env_full_disk =
     env_ok\<lparr>stream_error := Some (1, Error ''ENOSPC: no space left on device, write'')\<rparr>"

definition w_zipdir :: world where
  "w_zipdir = w_fresh\<lparr>files :=
     Dir [(''setup-ffmpeg.js'', File ''js''), (''ffmpeg-download.zip'', Dir [])]\<rparr>"

definition cached_dir_root :: fsnode where
  "cached_dir_root = Dir [(''setup-ffmpeg.js'', File ''js''),
     (''ffmpeg'', Dir [(''bin'', Dir [(''ffmpeg.exe'', Dir [])])])]"

definition cached_root :: fsnode where
  "cached_root = Dir [(''setup-ffmpeg.js'', File ''js''),
     (''ffmpeg'', Dir [(''bin'', Dir [(''ffmpeg.exe'', File ''MZ'')])])]"

section \<open>The executable search: facts\<close>












text \<open>
  Where no directory of the tree is named \<^verbatim>\<open>ffmpeg.exe\<close>: a tree without a regular file
  of that name yields \<^verbatim>\<open>null\<close>, and a tree with exactly one yields its path, at any
  depth.
\<close>

lemma listed_file_in_exe_files:
  "map_of sub ''ffmpeg.exe'' = Some (File c) \<Longrightarrow> d @ [''ffmpeg.exe''] \<in> set (exe_files_in sub d)"
proof (induction sub)
  case Nil
  then show ?case by simp
next
  case (Cons e sub)
  obtain k v where e: "e = (k, v)" by (cases e)
  show ?case
  proof (cases "k = ''ffmpeg.exe''")
    case True
    with Cons.prems e show ?thesis by simp
  next
    case False
    with Cons e show ?thesis by (cases v) simp_all
  qed
qed

lemma listed_dir_in_exe_dirs:
  "map_of sub ''ffmpeg.exe'' = Some (Dir s) \<Longrightarrow> d @ [''ffmpeg.exe''] \<in> set (exe_dirs_in sub d)"
proof (induction sub)
  case Nil
  then show ?case by simp
next
  case (Cons e sub)
  obtain k v where e: "e = (k, v)" by (cases e)
  show ?case
  proof (cases "k = ''ffmpeg.exe''")
    case True
    with Cons.prems e show ?thesis by simp
  next
    case False
    with Cons e show ?thesis by (cases v) simp_all
  qed
qed

lemma shortcut_listed:
  assumes "existsSync (Dir sub) [''ffmpeg.exe'']"
  shows "d @ [''ffmpeg.exe''] \<in> set (exe_files_in sub d) \<or> d @ [''ffmpeg.exe''] \<in> set (exe_dirs_in sub d)"
proof -
  from assms obtain n where n: "map_of sub ''ffmpeg.exe'' = Some n"
    by (auto simp: existsSync_def split: option.splits)
  show ?thesis
  proof (cases n)
    case (File c)
    with n listed_file_in_exe_files show ?thesis by blast
  next
    case (Dir s)
    with n listed_dir_in_exe_dirs show ?thesis by blast
  qed
qed

lemma search_none:
  "exe_dirs n dir = [] \<Longrightarrow> exe_files n dir = [] \<Longrightarrow>
     (case n of File c \<Rightarrow> True | Dir its \<Rightarrow> findFfmpegExePath n dir = Inr None)"
  "exe_dirs_in items dir = [] \<Longrightarrow> exe_files_in items dir = [] \<Longrightarrow>
     find_loop items dir = Inr None"
proof (induction n dir and items dir rule: findFfmpegExePath_find_loop.induct)
  case (4 item sub rest dir)
  from 4(3) have nd: "exe_dirs_in sub (dir @ [item]) = []" and ndr: "exe_dirs_in rest dir = []"
    by simp_all
  from 4(4) have nf: "exe_files_in sub (dir @ [item]) = []" and nfr: "exe_files_in rest dir = []"
    by simp_all
  have ns: "\<not> (item = ''bin'' \<and> existsSync (Dir sub) [''ffmpeg.exe''])"
    using shortcut_listed[of sub "dir @ [item]"] nd nf by auto
  from 4(1)[OF ns] nd nf have s: "findFfmpegExePath (Dir sub) (dir @ [item]) = Inr None" by simp
  from 4(2)[OF ns s refl ndr nfr] ns s show ?case by simp
qed (auto split: if_splits)

lemma search_single:
  "exe_dirs n dir = [] \<Longrightarrow> exe_files n dir = [p] \<Longrightarrow>
     (case n of File c \<Rightarrow> True | Dir its \<Rightarrow> findFfmpegExePath n dir = Inr (Some p))"
  "exe_dirs_in items dir = [] \<Longrightarrow> exe_files_in items dir = [p] \<Longrightarrow>
     find_loop items dir = Inr (Some p)"
proof (induction n dir and items dir rule: findFfmpegExePath_find_loop.induct)
  case (4 item sub rest dir)
  from 4(3) have nd: "exe_dirs_in sub (dir @ [item]) = []" and ndr: "exe_dirs_in rest dir = []"
    by simp_all
  from 4(4) have f: "exe_files_in sub (dir @ [item]) @ exe_files_in rest dir = [p]" by simp
  show ?case
  proof (cases "item = ''bin'' \<and> existsSync (Dir sub) [''ffmpeg.exe'']")
    case True
    with shortcut_listed[of sub "dir @ [item]"] nd
    have "(dir @ [item]) @ [''ffmpeg.exe''] \<in> set (exe_files_in sub (dir @ [item]))" by auto
    then have "(dir @ [item]) @ [''ffmpeg.exe''] \<in> set (exe_files_in sub (dir @ [item]) @ exe_files_in rest dir)"
      by simp
    with f have "p = dir @ [item] @ [''ffmpeg.exe'']" by simp
    with True show ?thesis by simp
  next
    case ns: False
    from f consider
      (sub) "exe_files_in sub (dir @ [item]) = [p]" "exe_files_in rest dir = []"
      | (rest) "exe_files_in sub (dir @ [item]) = []" "exe_files_in rest dir = [p]"
      by (auto simp: append_eq_Cons_conv)
    then show ?thesis
    proof cases
      case sub
      from 4(1)[OF ns] nd sub(1) have "findFfmpegExePath (Dir sub) (dir @ [item]) = Inr (Some p)"
        by simp
      with ns show ?thesis by auto
    next
      case rest
      from search_none(1)[of "Dir sub" "dir @ [item]"] nd rest(1)
      have s: "findFfmpegExePath (Dir sub) (dir @ [item]) = Inr None" by simp
      from 4(2)[OF ns s refl ndr rest(2)] ns s show ?thesis by auto
    qed
  qed
next
  case (5 item c rest dir)
  then show ?case by (auto split: if_splits)
qed auto

section \<open>The stages and the orchestrator: facts\<close>

lemmas io_defs = console_log_def console_error_def enter_def

lemmas run_defs = run_def main_def main_try_def banner_def checkFfmpeg_def downloadFfmpeg_def
  extractFfmpeg_def extractFfmpeg_try_def extractArchive_def searchExtracted_def decompressInto_def
  unlinkSync_def unlink_def createWriteStream_def pipe_def localCache_def existsSync_def
  addToPath_def path_string_def exec_error_def io_defs downloadPath_def ffmpegDir_def
  warning_line_def exit_prompt_def digit_def Let_def

lemma exec_outcome_cases:
  "x = Exited 0 \<or> exec_error x \<or> (\<exists>e. x = Threw e)"
  by (cases x) (auto simp: exec_error_def)

lemma exec_error_excl:
  "exec_error x \<Longrightarrow> x \<noteq> Exited 0" "exec_error x \<Longrightarrow> x \<noteq> Threw e"
  by (auto simp: exec_error_def)

lemma checkFfmpeg_result:
  "ffmpeg_version env = Threw e \<Longrightarrow> checkFfmpeg env w = (Rejected e, w)"
  "ffmpeg_version env = Exited 0 \<Longrightarrow>
     checkFfmpeg env w = (Resolved True, console_log ''FFmpeg is already installed in your system!'' w)"
  "exec_error (ffmpeg_version env) \<Longrightarrow>
     checkFfmpeg env w = (Resolved False, console_log ''FFmpeg is not found in your system PATH.'' w)"
  by (auto simp: checkFfmpeg_def exec_error_def split: exec_outcome.splits)

lemma download_frame:
  "stdin (snd (downloadFfmpeg env w)) = stdin w"
  "stages (snd (downloadFfmpeg env w)) = stages w"
  by (simp_all add: downloadFfmpeg_def io_defs Let_def
      split: http_outcome.splits sum.splits option.splits prod.splits)

lemma download_console:
  "console (snd (downloadFfmpeg env w)) =
     console w @ (Stdout, ''Downloading FFmpeg...'') #
       (case fst (downloadFfmpeg env w) of Resolved u \<Rightarrow> [(Stdout, ''Download complete!'')] | _ \<Rightarrow> [])"
  by (simp add: downloadFfmpeg_def io_defs Let_def
      split: http_outcome.splits sum.splits option.splits prod.splits)

lemma download_uncaught:
  "uncaught w = None \<Longrightarrow>
     (fst (downloadFfmpeg env w) = Pending) = (uncaught (snd (downloadFfmpeg env w)) \<noteq> None)"
  by (simp add: downloadFfmpeg_def io_defs Let_def
      split: http_outcome.splits sum.splits option.splits prod.splits)

lemma extract_try_frame:
  "stdin (snd (extractFfmpeg_try env w)) = stdin w"
  "stages (snd (extractFfmpeg_try env w)) = stages w"
  "uncaught (snd (extractFfmpeg_try env w)) = uncaught w"
  by (simp_all add: extractFfmpeg_try_def io_defs Let_def
      split: sum.splits option.splits prod.splits)

lemma extract_frame:
  "stdin (snd (extractFfmpeg env w)) = stdin w"
  "stages (snd (extractFfmpeg env w)) = stages w"
  "uncaught (snd (extractFfmpeg env w)) = uncaught w"
  "fst (extractFfmpeg env w) \<noteq> Pending"
  using extract_try_frame[of env "console_log ''Extracting FFmpeg...'' w"]
  by (auto simp add: extractFfmpeg_def io_defs split: prod.splits sum.splits)

lemma extract_try_console:
  "\<exists>ls. console (snd (extractFfmpeg_try env w)) = console w @ ls \<and>
        set ls \<subseteq> {(Stdout, ''Extraction complete!''), (Stdout, ''Cleaned up temporary files.'')}"
  by (auto simp add: extractFfmpeg_try_def io_defs Let_def
      split: sum.splits option.splits prod.splits)

lemma extract_console_rejected:
  assumes "fst (extractFfmpeg env w) = Rejected e"
  shows "\<exists>ls. console (snd (extractFfmpeg env w)) =
           console w @ (Stdout, ''Extracting FFmpeg...'') # ls @ [(Stderr, ''Error extracting FFmpeg: '' @ message e)] \<and>
        set ls \<subseteq> {(Stdout, ''Extraction complete!''), (Stdout, ''Cleaned up temporary files.'')}"
proof -
  obtain r w1 where t: "extractFfmpeg_try env (console_log ''Extracting FFmpeg...'' w) = (r, w1)"
    by force
  from extract_try_console[of env "console_log ''Extracting FFmpeg...'' w"] t
  obtain ls where ls: "console w1 = console w @ (Stdout, ''Extracting FFmpeg...'') # ls"
    and sub: "set ls \<subseteq> {(Stdout, ''Extraction complete!''), (Stdout, ''Cleaned up temporary files.'')}"
    by (auto simp: io_defs)
  from assms t have "r = Inl e" by (cases r) (auto simp: extractFfmpeg_def)
  with t ls sub show ?thesis by (auto simp: extractFfmpeg_def io_defs)
qed

lemma downloadD:
  assumes "downloadFfmpeg env w = (r, w')"
  shows "stdin w' = stdin w" and "stages w' = stages w"
    and "console w' = console w @ (Stdout, ''Downloading FFmpeg...'') #
       (case r of Resolved u \<Rightarrow> [(Stdout, ''Download complete!'')] | _ \<Rightarrow> [])"
  using download_frame[of env w] download_console[of env w] assms by simp_all

lemma extractD:
  assumes "extractFfmpeg env w = (r, w')"
  shows "stdin w' = stdin w" and "stages w' = stages w" and "r \<noteq> Pending"
  using extract_frame[of env w] assms by simp_all

lemma extract_rejectedD:
  assumes "extractFfmpeg env w = (Rejected e, w')"
  shows "\<exists>ls. console w' =
           console w @ (Stdout, ''Extracting FFmpeg...'') # ls @ [(Stderr, ''Error extracting FFmpeg: '' @ message e)] \<and>
        set ls \<subseteq> {(Stdout, ''Extraction complete!''), (Stdout, ''Cleaned up temporary files.'')}"
  using extract_console_rejected[of env w e] assms by simp

lemma addToPath_frame:
  "stdin (snd (addToPath env p w)) = stdin w"
  "stages (snd (addToPath env p w)) = stages w"
  "files (snd (addToPath env p w)) = files w"
  by (simp_all add: addToPath_def io_defs Let_def)

lemma main_frame:
  "stages (snd (main env w)) = stages (snd (main_try env w))"
  "files (snd (main env w)) = files (snd (main_try env w))"
  "stdin (snd (main env w)) = stdin (snd (main_try env w))"
  "fst (main env w) = (case fst (main_try env w) of Rejected e \<Rightarrow> Resolved () | r \<Rightarrow> r)"
  by (cases "main_try env w"; cases "fst (main_try env w)"; simp add: main_def io_defs)+

lemma main_try_threw:
  assumes "ffmpeg_version env = Threw e"
  shows "main_try env w = (Rejected e, enter CheckSystemPath w)"
  using assms by (simp add: main_try_def checkFfmpeg_result)

lemma main_try_available:
  assumes "ffmpeg_version env = Exited 0"
  shows "fst (main_try env w) = Resolved ()"
    and "stages (snd (main_try env w)) = stages w @ [CheckSystemPath]"
    and "files (snd (main_try env w)) = files w"
  using assms by (simp_all add: main_try_def checkFfmpeg_result io_defs)

lemma main_try_cached:
  assumes "exec_error (ffmpeg_version env)" and "localCache (files w) = Some p"
  shows "fst (main_try env w) = Resolved ()"
    and "stages (snd (main_try env w)) = stages w @ [CheckSystemPath, CheckLocalCache, Guidance]"
    and "files (snd (main_try env w)) = files w"
  using assms by (simp_all add: main_try_def checkFfmpeg_result io_defs Let_def addToPath_frame)

lemma main_try_blocked:
  assumes "exec_error (ffmpeg_version env)" and "localCache (files w) = None" and "stdin w = []"
  shows "fst (main_try env w) = Pending"
    and "stages (snd (main_try env w)) = stages w @ [CheckSystemPath, CheckLocalCache, AwaitConfirmation]"
  using assms by (simp_all add: main_try_def checkFfmpeg_result io_defs Let_def)

lemma before_download_simps:
  "stdin (before_download w later) = later"
  "files (before_download w later) = files w"
  "stages (before_download w later) =
     stages w @ [CheckSystemPath, CheckLocalCache, AwaitConfirmation, Download]"
  "console (before_download w later) = console w @ confirm_lines"
  by (simp_all add: before_download_def io_defs confirm_lines_def)

lemma main_try_install_eq:
  assumes "exec_error (ffmpeg_version env)" and "localCache (files w) = None"
    and "stdin w = ev # later"
  shows "main_try env w =
     (case downloadFfmpeg env (before_download w later) of
        (Pending, w4) \<Rightarrow> (Pending, w4)
      | (Rejected e, w4) \<Rightarrow> (Rejected e, w4)
      | (Resolved u, w4) \<Rightarrow>
          (case extractFfmpeg env (enter ExtractSearch w4) of
             (Pending, w5) \<Rightarrow> (Pending, w5)
           | (Rejected e, w5) \<Rightarrow> (Rejected e, w5)
           | (Resolved ffmpegExePath, w5) \<Rightarrow>
               (Resolved (),
                console_log
                  (CHR 0x0A # ''Setup complete! You can now use the YouTube Downloader with full video quality features.'')
                  (snd (addToPath env ffmpegExePath (enter Guidance w5))))))"
  using assms by (simp add: main_try_def checkFfmpeg_result io_defs Let_def before_download_def)

lemma main_try_rejected:
  assumes "main_try env w = (Rejected e, w1)"
  shows "(ffmpeg_version env = Threw e \<and> stdin w1 = stdin w \<and>
          stages w1 = stages w @ [CheckSystemPath] \<and> console w1 = console w) \<or>
         (exec_error (ffmpeg_version env) \<and> localCache (files w) = None \<and>
          (\<exists>ev. stdin w = ev # stdin w1) \<and>
          ((stages w1 = stages w @ [CheckSystemPath, CheckLocalCache, AwaitConfirmation, Download] \<and>
            console w1 = console w @ confirm_lines @ [(Stdout, ''Downloading FFmpeg...'')]) \<or>
           (stages w1 = stages w @ [CheckSystemPath, CheckLocalCache, AwaitConfirmation, Download, ExtractSearch] \<and>
            (\<exists>ls. console w1 = console w @ confirm_lines @
               [(Stdout, ''Downloading FFmpeg...''), (Stdout, ''Download complete!''),
                (Stdout, ''Extracting FFmpeg...'')] @ ls @
               [(Stderr, ''Error extracting FFmpeg: '' @ message e)] \<and>
               set ls \<subseteq> {(Stdout, ''Extraction complete!''), (Stdout, ''Cleaned up temporary files.'')}))))"
proof -
  from exec_outcome_cases[of "ffmpeg_version env"]
  consider (ok) "ffmpeg_version env = Exited 0" | (err) "exec_error (ffmpeg_version env)"
    | (threw) e' where "ffmpeg_version env = Threw e'" by blast
  then show ?thesis
  proof cases
    case ok
    from main_try_available(1)[OF ok, of w] assms show ?thesis by simp
  next
    case (threw e')
    from main_try_threw[OF threw, of w] assms threw show ?thesis by (auto simp: io_defs)
  next
    case err
    show ?thesis
    proof (cases "localCache (files w)")
      case (Some p)
      from main_try_cached(1)[OF err Some] assms show ?thesis by simp
    next
      case None
      show ?thesis
      proof (cases "stdin w")
        case Nil
        from main_try_blocked(1)[OF err None Nil] assms show ?thesis by simp
      next
        case (Cons ev later)
        obtain rd w4 where d: "downloadFfmpeg env (before_download w later) = (rd, w4)" by force
        obtain rx w5 where x: "extractFfmpeg env (enter ExtractSearch w4) = (rx, w5)" by force
        note dD = downloadD[OF d] and xD = extractD[OF x]
        have mt: "main_try env w =
           (case rd of Pending \<Rightarrow> (Pending, w4) | Rejected e \<Rightarrow> (Rejected e, w4)
            | Resolved u \<Rightarrow>
               (case rx of
                  Pending \<Rightarrow> (Pending, w5)
                | Rejected e \<Rightarrow> (Rejected e, w5)
                | Resolved ffmpegExePath \<Rightarrow>
                    (Resolved (),
                     console_log
                       (CHR 0x0A # ''Setup complete! You can now use the YouTube Downloader with full video quality features.'')
                       (snd (addToPath env ffmpegExePath (enter Guidance w5))))))"
          using d x by (simp add: main_try_install_eq[OF err None Cons] split: promise.splits)
        have s4: "stages w4 = stages w @ [CheckSystemPath, CheckLocalCache, AwaitConfirmation, Download]"
          and i4: "stdin w4 = later"
          using dD by (simp_all add: before_download_simps)
        show ?thesis
        proof (cases rd)
          case Pending
          with mt assms show ?thesis by simp
        next
          case (Rejected e')
          with mt assms have "w1 = w4" "e' = e" by simp_all
          with dD Rejected s4 i4 Cons err None show ?thesis
            by (simp add: before_download_simps)
        next
          case (Resolved u)
          with mt assms xD(3) have rx: "rx = Rejected e" and w15: "w1 = w5"
            by (cases rx; simp)+
          from extract_rejectedD[OF x[unfolded rx]] obtain ls
            where ls: "console w5 = console (enter ExtractSearch w4) @ (Stdout, ''Extracting FFmpeg...'') # ls @
                         [(Stderr, ''Error extracting FFmpeg: '' @ message e)]"
              and sub: "set ls \<subseteq> {(Stdout, ''Extraction complete!''), (Stdout, ''Cleaned up temporary files.'')}"
            by blast
          have a: "stages w1 = stages w @ [CheckSystemPath, CheckLocalCache, AwaitConfirmation, Download, ExtractSearch]"
            using xD s4 w15 by (simp add: io_defs)
          have b: "console w1 = console w @ confirm_lines @
                   [(Stdout, ''Downloading FFmpeg...''), (Stdout, ''Download complete!''),
                    (Stdout, ''Extracting FFmpeg...'')] @ ls @
                   [(Stderr, ''Error extracting FFmpeg: '' @ message e)]"
            using ls dD w15 Resolved by (simp add: io_defs before_download_simps)
          have c: "\<exists>ev. stdin w = ev # stdin w1" using xD i4 w15 Cons by (simp add: io_defs)
          from a b c sub err None show ?thesis by blast
        qed
      qed
    qed
  qed
qed

section \<open>The probes\<close>

lemma checkFfmpeg_called_back:
  assumes "\<And>e. ffmpeg_version env \<noteq> Threw e"
  shows "fst (checkFfmpeg env w) = Resolved (ffmpeg_version env = Exited 0)"
  using assms exec_outcome_cases[of "ffmpeg_version env"]
  by (auto simp: checkFfmpeg_result dest: exec_error_excl)

text \<open>
  C5, where \<^verbatim>\<open>exec\<close> throws while spawning (\<^verbatim>\<open>spawn E2BIG\<close>): the promise of the probe is
  rejected, the orchestrator's \<^verbatim>\<open>catch\<close> takes the error and no other stage runs. A
  spawn failure that \<^verbatim>\<open>exec\<close> reports to its callback resolves to false.
\<close>

theorem checkFfmpeg_rejects_when_exec_throws:
  "fst (checkFfmpeg env_e2big w_fresh) = Rejected (Error ''spawn E2BIG'') \<and>
   stages (snd (run env_e2big w_fresh)) = [CheckSystemPath] \<and>
   fst (checkFfmpeg env404 w_fresh) = Resolved False"
  by (simp add: run_defs env_e2big_def env_ok_def env404_def w_fresh_def)

lemma localCache_exists:
  "localCache root =
     (case fs_lookup root (ffmpegDir @ [''bin'', ''ffmpeg.exe'']) of
        None \<Rightarrow> None
      | Some n \<Rightarrow> Some (ffmpegDir @ [''bin'', ''ffmpeg.exe'']))"
  by (simp add: localCache_def existsSync_def split: option.splits)

lemma localCache_hit_keeps_files:
  assumes "exec_error (ffmpeg_version env)" and "localCache (files w) = Some p"
  shows "fst (main env w) = Resolved () \<and> files (snd (main env w)) = files w"
  using main_try_cached[OF assms] by (simp add: main_frame)

text \<open>
  C6, where \<^verbatim>\<open>ffmpeg/bin/ffmpeg.exe\<close> below the script's directory is a directory: no file
  exists at the path, and the probe returns the path; the orchestrator goes on to the
  guidance for it.
\<close>

theorem localCache_accepts_directory:
  "fs_lookup cached_dir_root (ffmpegDir @ [''bin'', ''ffmpeg.exe'']) = Some (Dir []) \<and>
   localCache cached_dir_root = Some [''ffmpeg'', ''bin'', ''ffmpeg.exe''] \<and>
   stages (snd (main env404 (w_fresh\<lparr>files := cached_dir_root\<rparr>))) =
     [CheckSystemPath, CheckLocalCache, Guidance]"
  by (simp add: run_defs cached_dir_root_def env404_def w_fresh_def)

section \<open>The download and the search at their edge\<close>

text \<open>
  C1, at a response with status 404: the promise is rejected with an error whose message
  ends with the status code, and the destination file, which did not exist before the
  attempt, is left behind empty.
\<close>

theorem download_404_leaves_file:
  "fst (downloadFfmpeg env404 w_fresh) = Rejected (Error ''Failed to download FFmpeg: 404'') \<and>
   \<not> existsSync (files w_fresh) downloadPath \<and>
   fs_lookup (files (snd (downloadFfmpeg env404 w_fresh))) downloadPath = Some (File [])"
  by (simp add: run_defs env404_def w_fresh_def)

lemma createWriteStream_ok:
  assumes "createWriteStream env root downloadPath = Inr root2"
  shows "\<exists>es. root = Dir es \<and> root2 = Dir (AList.update ''ffmpeg-download.zip'' (File []) es)"
  using assms
  by (cases root)
     (auto simp: createWriteStream_def downloadPath_def split: option.splits fsnode.splits)

lemma download_conn_error_unlinks:
  assumes "get_response env = ConnError err" and "unlink_error env = None"
    and "\<not> unlink_before_open env"
    and "createWriteStream env (files w) downloadPath = Inr root2"
  shows "fst (downloadFfmpeg env w) = Rejected err \<and>
         \<not> existsSync (files (snd (downloadFfmpeg env w))) downloadPath"
proof -
  from createWriteStream_ok[OF assms(4)] obtain es where
    "root2 = Dir (AList.update ''ffmpeg-download.zip'' (File []) es)" by blast
  with assms show ?thesis
    by (simp add: downloadFfmpeg_def io_defs Let_def unlink_def unlinkSync_def existsSync_def
        downloadPath_def update_conv' delete_conv')
qed

lemma download_conn_error_race:
  assumes "get_response env = ConnError err" and "unlink_before_open env"
    and "createWriteStream env (unlink env (files w) downloadPath) downloadPath = Inr root2"
  shows "fst (downloadFfmpeg env w) = Rejected err \<and>
         fs_lookup (files (snd (downloadFfmpeg env w))) downloadPath = Some (File [])"
proof -
  from createWriteStream_ok[OF assms(3)] obtain es where
    "root2 = Dir (AList.update ''ffmpeg-download.zip'' (File []) es)" by blast
  with assms show ?thesis
    by (simp add: downloadFfmpeg_def io_defs Let_def downloadPath_def update_conv')
qed

lemma download_not_200_keeps_file:
  assumes "get_response env = Response statusCode body" and "statusCode \<noteq> 200"
    and "createWriteStream env (files w) downloadPath = Inr root2"
  shows "fst (downloadFfmpeg env w) =
           Rejected (Error (''Failed to download FFmpeg: '' @ show_nat statusCode)) \<and>
         fs_lookup (files (snd (downloadFfmpeg env w))) downloadPath = Some (File [])"
proof -
  from createWriteStream_ok[OF assms(3)] obtain es where
    "root2 = Dir (AList.update ''ffmpeg-download.zip'' (File []) es)" by blast
  with assms show ?thesis
    by (simp add: downloadFfmpeg_def io_defs Let_def downloadPath_def update_conv'
        del: show_nat.simps)
qed

text \<open>
  C7, at an extracted tree whose \<^verbatim>\<open>bin\<close> directory holds a directory named
  \<^verbatim>\<open>ffmpeg.exe\<close>: the tree has no regular file of that name, and the search returns the
  directory's path.
\<close>

theorem search_returns_directory:
  "exe_files bin_dir_tree ffmpegDir = [] \<and>
   fs_lookup bin_dir_tree [''bin'', ''ffmpeg.exe''] = Some (Dir []) \<and>
   findFfmpegExePath bin_dir_tree ffmpegDir = Inr (Some (ffmpegDir @ [''bin'', ''ffmpeg.exe'']))"
  by (simp add: bin_dir_tree_def ffmpegDir_def existsSync_def)

section \<open>The search is exhaustive and sound; the archive is deleted before the search\<close>





text \<open>
  C3. When the extraction has succeeded, the archive is deleted before the search is
  evaluated. Where the deletion succeeds, the archive is gone from the state in which
  the stage ends, whatever the search yields: the path found, the error for an
  executable that is not found, or an error of the search itself; the extracted tree
  is as the extraction left it. Where the deletion fails, the stage raises that error
  and the search is not evaluated.
\<close>

theorem extract_deletes_archive_before_search:
  assumes "extractArchive env (files w) = Inr root2"
  shows "case unlinkSync env root2 downloadPath of
           Inl e \<Rightarrow> fst (extractFfmpeg env w) = Rejected e \<and> files (snd (extractFfmpeg env w)) = root2
         | Inr root3 \<Rightarrow>
             files (snd (extractFfmpeg env w)) = root3 \<and>
             \<not> existsSync root3 downloadPath \<and>
             fs_lookup root3 ffmpegDir = fs_lookup root2 ffmpegDir \<and>
             fst (extractFfmpeg env w) =
               (case searchExtracted root3 of
                  Inl e \<Rightarrow> Rejected e
                | Inr None \<Rightarrow> Rejected (Error ''Could not find ffmpeg.exe in the extracted files'')
                | Inr (Some ffmpegExePath) \<Rightarrow> Resolved ffmpegExePath)"
proof (cases "unlinkSync env root2 downloadPath")
  case (Inl e)
  with assms show ?thesis
    by (simp add: extractFfmpeg_def extractFfmpeg_try_def io_defs Let_def)
next
  case (Inr root3)
  then obtain c where c: "fs_lookup root2 downloadPath = Some (File c)"
    and r3: "root3 = fs_remove root2 downloadPath"
    by (auto simp: unlinkSync_def split: option.splits fsnode.splits)
  from c obtain es where es: "root2 = Dir es"
    by (cases root2) (auto simp: downloadPath_def)
  have gone: "\<not> existsSync root3 downloadPath"
    by (simp add: r3 es existsSync_def downloadPath_def delete_conv')
  have kept: "fs_lookup root3 ffmpegDir = fs_lookup root2 ffmpegDir"
    by (simp add: r3 es downloadPath_def ffmpegDir_def delete_conv')
  have "extractFfmpeg_try env (console_log ''Extracting FFmpeg...'' w) =
      (case searchExtracted root3 of
         Inl e \<Rightarrow> Inl e
       | Inr None \<Rightarrow> Inl (Error ''Could not find ffmpeg.exe in the extracted files'')
       | Inr (Some ffmpegExePath) \<Rightarrow> Inr ffmpegExePath,
       console_log ''Cleaned up temporary files.''
         (console_log ''Extraction complete!'' (console_log ''Extracting FFmpeg...'' w)
            \<lparr>files := root3\<rparr>))"
    using assms Inr
    by (simp add: extractFfmpeg_try_def io_defs Let_def split: sum.splits option.splits)
  then have "files (snd (extractFfmpeg env w)) = root3" and
    "fst (extractFfmpeg env w) =
           (case searchExtracted root3 of
              Inl e \<Rightarrow> Rejected e
            | Inr None \<Rightarrow> Rejected (Error ''Could not find ffmpeg.exe in the extracted files'')
            | Inr (Some ffmpegExePath) \<Rightarrow> Resolved ffmpegExePath)"
    by (simp_all add: extractFfmpeg_def io_defs split: sum.splits option.splits)
  with gone kept Inr show ?thesis by simp
qed

theorem extract_deletes_archive_before_search_witness:
  "fst (extractFfmpeg env_docs w_downloaded) =
     Rejected (Error ''Could not find ffmpeg.exe in the extracted files'') \<and>
   \<not> existsSync (files (snd (extractFfmpeg env_docs w_downloaded))) downloadPath \<and>
   fs_lookup (files (snd (extractFfmpeg env_docs w_downloaded))) ffmpegDir = Some docs_tree"
proof -
  have h1: "extractArchive env_docs (files w_downloaded) =
      Inr (Dir [(''setup-ffmpeg.js'', File ''js''), (''ffmpeg-download.zip'', File ''PK''),
                (''ffmpeg'', docs_tree)])"
    by (simp add: run_defs env_docs_def env_ok_def env404_def w_downloaded_def w_fresh_def)
  have h2: "unlinkSync env_docs
      (Dir [(''setup-ffmpeg.js'', File ''js''), (''ffmpeg-download.zip'', File ''PK''),
            (''ffmpeg'', docs_tree)]) downloadPath =
      Inr (Dir [(''setup-ffmpeg.js'', File ''js''), (''ffmpeg'', docs_tree)])"
    by (simp add: run_defs env_docs_def env_ok_def env404_def)
  have s: "searchExtracted (Dir [(''setup-ffmpeg.js'', File ''js''), (''ffmpeg'', docs_tree)]) = Inr None"
    by (simp add: searchExtracted_def ffmpegDir_def docs_tree_def existsSync_def)
  from extract_deletes_archive_before_search[OF h1] s
  show ?thesis by (simp add: h2 ffmpegDir_def)
qed

section \<open>The order of the stages\<close>

lemma main_try_install_stages:
  assumes "exec_error (ffmpeg_version env)" and "localCache (files w) = None"
    and "stdin w = ev # later"
  shows "stages (snd (main_try env w)) =
     stages w @ [CheckSystemPath, CheckLocalCache, AwaitConfirmation, Download] @
       (case fst (downloadFfmpeg env (before_download w later)) of
          Resolved u \<Rightarrow>
            ExtractSearch #
              (case fst (extractFfmpeg env
                      (enter ExtractSearch (snd (downloadFfmpeg env (before_download w later))))) of
                 Resolved ffmpegExePath \<Rightarrow> [Guidance]
               | _ \<Rightarrow> [])
        | _ \<Rightarrow> [])"
proof -
  obtain rd w4 where d: "downloadFfmpeg env (before_download w later) = (rd, w4)" by force
  obtain rx w5 where x: "extractFfmpeg env (enter ExtractSearch w4) = (rx, w5)" by force
  note dD = downloadD[OF d] and xD = extractD[OF x]
  have mt: "main_try env w =
     (case rd of Pending \<Rightarrow> (Pending, w4) | Rejected e \<Rightarrow> (Rejected e, w4)
      | Resolved u \<Rightarrow>
         (case rx of
            Pending \<Rightarrow> (Pending, w5)
          | Rejected e \<Rightarrow> (Rejected e, w5)
          | Resolved ffmpegExePath \<Rightarrow>
              (Resolved (),
               console_log
                 (CHR 0x0A # ''Setup complete! You can now use the YouTube Downloader with full video quality features.'')
                 (snd (addToPath env ffmpegExePath (enter Guidance w5))))))"
    using d x by (simp add: main_try_install_eq[OF assms] split: promise.splits)
  have s4: "stages w4 = stages w @ [CheckSystemPath, CheckLocalCache, AwaitConfirmation, Download]"
    using dD by (simp add: before_download_simps)
  have s5: "stages w5 = stages w @ [CheckSystemPath, CheckLocalCache, AwaitConfirmation, Download, ExtractSearch]"
    using xD s4 by (simp add: enter_def)
  have g: "\<And>p. stages (console_log
                 (CHR 0x0A # ''Setup complete! You can now use the YouTube Downloader with full video quality features.'')
                 (snd (addToPath env p (enter Guidance w5)))) = stages w5 @ [Guidance]"
    by (simp add: addToPath_frame io_defs)
  show ?thesis
    using xD(3) by (cases rd; cases rx; simp add: mt d x s4 s5 g)
qed

text \<open>
  C4, as the code has it. The stages are entered in this order, and a stage that fails
  ends the sequence: the availability probe, alone when it reports the binary invocable
  and when it does not report at all; when it reports the binary not invocable, the
  local-cache probe, followed by the guidance alone when it finds the binary; otherwise
  the confirmation, after it the download once an input event has arrived, after it
  extract-and-search only when the download has completed without an error, and after
  it the guidance only when extract-and-search has completed without an error.
\<close>

theorem stages_in_order:
  "stages (snd (main env w)) =
     stages w @
       (case fst (checkFfmpeg env (enter CheckSystemPath w)) of
          Resolved True \<Rightarrow> [CheckSystemPath]
        | Resolved False \<Rightarrow>
            (case localCache (files w) of
               Some ffmpegExePath \<Rightarrow> [CheckSystemPath, CheckLocalCache, Guidance]
             | None \<Rightarrow>
                 (case stdin w of
                    [] \<Rightarrow> [CheckSystemPath, CheckLocalCache, AwaitConfirmation]
                  | ev # later \<Rightarrow>
                      [CheckSystemPath, CheckLocalCache, AwaitConfirmation, Download] @
                      (case fst (downloadFfmpeg env (before_download w later)) of
                         Resolved u \<Rightarrow>
                           ExtractSearch #
                             (case fst (extractFfmpeg env
                                     (enter ExtractSearch
                                        (snd (downloadFfmpeg env (before_download w later))))) of
                                Resolved ffmpegExePath \<Rightarrow> [Guidance]
                              | _ \<Rightarrow> [])
                       | _ \<Rightarrow> [])))
        | _ \<Rightarrow> [CheckSystemPath])"
proof -
  from exec_outcome_cases[of "ffmpeg_version env"]
  consider (ok) "ffmpeg_version env = Exited 0" | (err) "exec_error (ffmpeg_version env)"
    | (threw) e where "ffmpeg_version env = Threw e" by blast
  then show ?thesis
  proof cases
    case ok
    then show ?thesis by (simp add: main_frame main_try_available checkFfmpeg_result)
  next
    case (threw e)
    then show ?thesis by (simp add: main_frame main_try_threw checkFfmpeg_result io_defs)
  next
    case err
    show ?thesis
    proof (cases "localCache (files w)")
      case (Some p)
      with err show ?thesis by (simp add: main_frame main_try_cached checkFfmpeg_result)
    next
      case None
      show ?thesis
      proof (cases "stdin w")
        case Nil
        with err None show ?thesis by (simp add: main_frame main_try_blocked checkFfmpeg_result)
      next
        case (Cons ev later)
        with err None show ?thesis
          by (simp only: main_frame main_try_install_stages[OF err None Cons]
                checkFfmpeg_result(3)[OF err]) simp
      qed
    qed
  qed
qed

theorem stages_in_order_witness:
  "stages (snd (main (env404\<lparr>ffmpeg_version := Exited 0\<rparr>) w_fresh)) = [CheckSystemPath] \<and>
   stages (snd (main env_e2big w_fresh)) = [CheckSystemPath] \<and>
   stages (snd (main env404 (w_fresh\<lparr>files := cached_root\<rparr>))) =
     [CheckSystemPath, CheckLocalCache, Guidance] \<and>
   stages (snd (main env_full_disk w_fresh)) =
     [CheckSystemPath, CheckLocalCache, AwaitConfirmation, Download] \<and>
   stages (snd (main env_docs w_fresh)) =
     [CheckSystemPath, CheckLocalCache, AwaitConfirmation, Download, ExtractSearch] \<and>
   stages (snd (main env_ok w_fresh)) =
     [CheckSystemPath, CheckLocalCache, AwaitConfirmation, Download, ExtractSearch, Guidance]"
  using stages_in_order[of "env404\<lparr>ffmpeg_version := Exited 0\<rparr>" w_fresh]
    stages_in_order[of env_e2big w_fresh]
    stages_in_order[of env404 "w_fresh\<lparr>files := cached_root\<rparr>"]
    stages_in_order[of env_full_disk w_fresh]
    stages_in_order[of env_docs w_fresh]
    stages_in_order[of env_ok w_fresh]
  by (simp add: run_defs before_download_def env_docs_def env_full_disk_def env_e2big_def
      env_ok_def env404_def w_fresh_def cached_root_def docs_tree_def release_tree_def)

text \<open>
  C4 as stated fails where the download answers 404: the binary is neither invocable nor
  cached and the confirmation is given, yet neither extract-and-search nor the guidance
  runs.
\<close>

theorem stages_after_failed_download:
  "exec_error (ffmpeg_version env404) \<and> localCache (files w_fresh) = None \<and>
   stages (snd (main env404 w_fresh)) =
     [CheckSystemPath, CheckLocalCache, AwaitConfirmation, Download]"
  by (simp add: run_defs env404_def w_fresh_def)

section \<open>Errors of the installation\<close>

lemma banner_simps:
  "files (banner w) = files w" "stdin (banner w) = stdin w" "stages (banner w) = stages w"
  "console (banner w) = console w @
     [(Stdout, ''YouTube Downloader FFmpeg Setup''), (Stdout, ''==============================''),
      (Stdout, ''This script will download and set up FFmpeg for better video quality.'' @ [CHR 0x0A])]"
  by (simp_all add: banner_def io_defs)

lemma run_after_rejection:
  assumes "main_try env (banner w) = (Rejected e, w1)"
  shows "fst (main env (banner w)) = Resolved ()"
    and "console (snd (run env w)) = console w1 @
           [(Stderr, CHR 0x0A # ''Error setting up FFmpeg: '' @ message e),
            (Stdout, warning_line), (Stdout, exit_prompt)]"
    and "fst (run env w) = (if stdin w1 = [] then None else Some 0)"
    and "stages (snd (run env w)) = stages w1"
    and "files (snd (run env w)) = files w1"
  using assms by (simp_all add: run_def main_def io_defs Let_def split: list.splits)

lemma run_after_crash:
  assumes "main_try env (banner w) = (Pending, w1)" and "uncaught w1 = Some e"
  shows "run env w = (Some 1, console_error (message e) w1)"
  using assms by (simp add: run_def main_def)

text \<open>
  A rejection of the \<^verbatim>\<open>try\<close> block of the orchestrator is caught: the promise of main is
  resolved, the error line and the warning are each printed once, the exit prompt is
  the last line printed, and the process exits with code 0 at the next input event.
\<close>

lemma rejection_caught_once:
  assumes "fst (main_try env (banner w)) = Rejected e" and "console w = []"
  shows "fst (main env (banner w)) = Resolved () \<and>
         console (snd (run env w)) = console (snd (main_try env (banner w))) @
           [(Stderr, CHR 0x0A # ''Error setting up FFmpeg: '' @ message e),
            (Stdout, warning_line), (Stdout, exit_prompt)] \<and>
         count_list (console (snd (run env w))) (Stdout, warning_line) = 1 \<and>
         count_list (console (snd (run env w)))
           (Stderr, CHR 0x0A # ''Error setting up FFmpeg: '' @ message e) = 1 \<and>
         fst (run env w) = (if stdin (snd (main_try env (banner w))) = [] then None else Some 0)"
proof -
  obtain w1 where m: "main_try env (banner w) = (Rejected e, w1)"
    using assms(1) by (cases "main_try env (banner w)") simp
  note r = run_after_rejection[OF m]
  have cnt: "count_list (console w1) (Stdout, warning_line) = 0 \<and>
     count_list (console w1) (Stderr, CHR 0x0A # ''Error setting up FFmpeg: '' @ message e) = 0"
    using main_try_rejected[OF m]
  proof (elim disjE conjE exE)
    assume "console w1 = console (banner w)"
    then show ?thesis by (simp add: banner_simps assms(2) warning_line_def)
  next
    assume "console w1 = console (banner w) @ confirm_lines @ [(Stdout, ''Downloading FFmpeg...'')]"
    then show ?thesis
      by (simp add: banner_simps assms(2) confirm_lines_def warning_line_def)
  next
    fix ls
    assume ls: "console w1 = console (banner w) @ confirm_lines @
             [(Stdout, ''Downloading FFmpeg...''), (Stdout, ''Download complete!''),
              (Stdout, ''Extracting FFmpeg...'')] @ ls @
             [(Stderr, ''Error extracting FFmpeg: '' @ message e)]"
      and sub: "set ls \<subseteq> {(Stdout, ''Extraction complete!''), (Stdout, ''Cleaned up temporary files.'')}"
    from sub have "(Stdout, warning_line) \<notin> set ls"
      and "(Stderr, CHR 0x0A # ''Error setting up FFmpeg: '' @ message e) \<notin> set ls"
      by (auto simp: warning_line_def)
    then have "count_list ls (Stdout, warning_line) = 0"
      and "count_list ls (Stderr, CHR 0x0A # ''Error setting up FFmpeg: '' @ message e) = 0"
      by (simp_all add: count_list_0_iff)
    then show ?thesis
      by (simp add: ls banner_simps assms(2) confirm_lines_def warning_line_def)
  qed
  have "count_list (console (snd (run env w))) (Stdout, warning_line) = 1"
    and "count_list (console (snd (run env w)))
           (Stderr, CHR 0x0A # ''Error setting up FFmpeg: '' @ message e) = 1"
    using cnt by (simp_all add: r(2) warning_line_def exit_prompt_def)
  with r show ?thesis by (simp add: m)
qed

text \<open>
  C2, where the archive cannot be opened for writing (a directory has its name) and
  where a write to it fails (the disk is full): the write stream emits an \<^verbatim>\<open>'error'\<close>
  event during the download, no handler takes it, and the process ends with exit code
  1; neither the warning nor the exit prompt is printed.
\<close>

theorem write_stream_error_uncaught:
  "fst (run env_ok w_zipdir) = Some 1 \<and>
   uncaught (snd (run env_ok w_zipdir)) =
     Some (Error ''EISDIR: illegal operation on a directory, open'') \<and>
   stages (snd (run env_ok w_zipdir)) =
     [CheckSystemPath, CheckLocalCache, AwaitConfirmation, Download] \<and>
   (Stdout, warning_line) \<notin> set (console (snd (run env_ok w_zipdir))) \<and>
   (Stdout, exit_prompt) \<notin> set (console (snd (run env_ok w_zipdir))) \<and>
   fst (run env_full_disk w_fresh) = Some 1 \<and>
   (Stdout, warning_line) \<notin> set (console (snd (run env_full_disk w_fresh))) \<and>
   (Stdout, exit_prompt) \<notin> set (console (snd (run env_full_disk w_fresh)))"
  by (simp add: run_defs env_full_disk_def env_ok_def env404_def w_zipdir_def w_fresh_def)

text \<open>
  C9 as stated fails where the archive cannot be deleted: the extraction has succeeded
  and the executable lies in the extracted tree, yet the stage raises the deletion
  error, the search result is never used and the guidance does not run.
\<close>

theorem unlink_failure_stops_install:
  "extractArchive env_busy (files w_downloaded) =
     Inr (Dir [(''setup-ffmpeg.js'', File ''js''), (''ffmpeg-download.zip'', File ''PK''),
               (''ffmpeg'', release_tree)]) \<and>
   unlinkSync env_busy
     (Dir [(''setup-ffmpeg.js'', File ''js''), (''ffmpeg-download.zip'', File ''PK''),
           (''ffmpeg'', release_tree)]) downloadPath =
     Inl (Error ''EBUSY: resource busy or locked, unlink'') \<and>
   searchExtracted
     (Dir [(''setup-ffmpeg.js'', File ''js''), (''ffmpeg-download.zip'', File ''PK''),
           (''ffmpeg'', release_tree)]) =
     Inr (Some [''ffmpeg'', ''ffmpeg-master-latest-win64-gpl'', ''bin'', ''ffmpeg.exe'']) \<and>
   fst (extractFfmpeg env_busy w_downloaded) =
     Rejected (Error ''EBUSY: resource busy or locked, unlink'') \<and>
   stages (snd (run env_busy w_fresh)) =
     [CheckSystemPath, CheckLocalCache, AwaitConfirmation, Download, ExtractSearch]"
  by (simp add: run_defs env_busy_def env_ok_def env404_def w_downloaded_def w_fresh_def
      release_tree_def)

text \<open>
  C9, as the code has it. When the extraction has succeeded and deleting the archive
  fails, the extraction stage logs the deletion error and raises it, whatever the
  extracted tree holds; the guidance does not run; the orchestrator prints the error and
  the warning that the application remains usable, and the run ends at the exit prompt.
  The archive and the extracted tree stay as they are.
\<close>

theorem unlink_failure_reported:
  assumes "exec_error (ffmpeg_version env)" and "localCache (files w) = None"
    and "stdin w = ev # later"
    and "downloadFfmpeg env (before_download (banner w) later) = (Resolved (), w4)"
    and "extractArchive env (files w4) = Inr root2"
    and "unlinkSync env root2 downloadPath = Inl e"
  shows "fst (extractFfmpeg env (enter ExtractSearch w4)) = Rejected e \<and>
         fst (main env (banner w)) = Resolved () \<and>
         stages (snd (run env w)) =
           stages w @ [CheckSystemPath, CheckLocalCache, AwaitConfirmation, Download, ExtractSearch] \<and>
         files (snd (run env w)) = root2 \<and>
         console (snd (run env w)) = console w4 @
           [(Stdout, ''Extracting FFmpeg...''), (Stdout, ''Extraction complete!''),
            (Stderr, ''Error extracting FFmpeg: '' @ message e),
            (Stderr, CHR 0x0A # ''Error setting up FFmpeg: '' @ message e),
            (Stdout, warning_line), (Stdout, exit_prompt)]"
proof -
  have x: "extractFfmpeg env (enter ExtractSearch w4) =
      (Rejected e,
       console_error (''Error extracting FFmpeg: '' @ message e)
         (console_log ''Extraction complete!''
            (console_log ''Extracting FFmpeg...'' (enter ExtractSearch w4)\<lparr>files := root2\<rparr>)))"
    using assms(5,6) by (simp add: extractFfmpeg_def extractFfmpeg_try_def io_defs Let_def)
  have m: "main_try env (banner w) =
      (Rejected e,
       console_error (''Error extracting FFmpeg: '' @ message e)
         (console_log ''Extraction complete!''
            (console_log ''Extracting FFmpeg...'' (enter ExtractSearch w4)\<lparr>files := root2\<rparr>)))"
    using assms(1,2,3)
    by (simp add: main_try_install_eq[of env "banner w" ev later] banner_simps assms(4) x)
  have s4: "stages w4 = stages w @ [CheckSystemPath, CheckLocalCache, AwaitConfirmation, Download]"
    using downloadD(2)[OF assms(4)] by (simp add: before_download_simps banner_simps)
  from run_after_rejection[OF m] x s4 show ?thesis by (simp add: io_defs)
qed

theorem unlink_failure_reported_witness:
  "fst (extractFfmpeg env_busy
          (enter ExtractSearch
             (snd (downloadFfmpeg env_busy (before_download (banner w_fresh) [[CHR 0x0A]]))))) =
     Rejected (Error ''EBUSY: resource busy or locked, unlink'') \<and>
   stages (snd (run env_busy w_fresh)) =
     [CheckSystemPath, CheckLocalCache, AwaitConfirmation, Download, ExtractSearch] \<and>
   files (snd (run env_busy w_fresh)) =
     Dir [(''setup-ffmpeg.js'', File ''js''), (''ffmpeg-download.zip'', File ''PK''),
          (''ffmpeg'', release_tree)]"
proof -
  have h1: "exec_error (ffmpeg_version env_busy)"
    by (simp add: exec_error_def env_busy_def env_ok_def env404_def)
  have h2: "localCache (files w_fresh) = None"
    by (simp add: localCache_def existsSync_def ffmpegDir_def w_fresh_def)
  have h3: "stdin w_fresh = [CHR 0x0A] # [[CHR 0x0A]]" by (simp add: w_fresh_def)
  have h4: "downloadFfmpeg env_busy (before_download (banner w_fresh) [[CHR 0x0A]]) =
      (Resolved (), snd (downloadFfmpeg env_busy (before_download (banner w_fresh) [[CHR 0x0A]])))"
    by (simp add: run_defs before_download_def env_busy_def env_ok_def env404_def w_fresh_def)
  have h5: "extractArchive env_busy
      (files (snd (downloadFfmpeg env_busy (before_download (banner w_fresh) [[CHR 0x0A]])))) =
      Inr (Dir [(''setup-ffmpeg.js'', File ''js''), (''ffmpeg-download.zip'', File ''PK''),
               (''ffmpeg'', release_tree)])"
    by (simp add: run_defs before_download_def env_busy_def env_ok_def env404_def w_fresh_def)
  have h6: "unlinkSync env_busy
      (Dir [(''setup-ffmpeg.js'', File ''js''), (''ffmpeg-download.zip'', File ''PK''),
            (''ffmpeg'', release_tree)]) downloadPath =
      Inl (Error ''EBUSY: resource busy or locked, unlink'')"
    by (simp add: run_defs env_busy_def env_ok_def env404_def)
  from unlink_failure_reported[OF h1 h2 h3 h4 h5 h6] show ?thesis by (simp add: w_fresh_def)
qed

end
